theory Spec2Isabelle
  imports Complex_Main "HOL-Library.AList"
begin

section \<open>Strings\<close>

text \<open>
  A JavaScript string is modelled as a \<^typ>\<open>string\<close>: one \<^typ>\<open>char\<close> stands for one
  UTF-16 code unit below 256. On that range the regular-expression class \<^verbatim>\<open>\s\<close> and
  the characters removed by \<^verbatim>\<open>String.prototype.trim\<close> coincide: TAB, LF, VT, FF, CR,
  SPACE and NO-BREAK SPACE. The class \<^verbatim>\<open>[\s\n\t]\<close> of the source is therefore \<^verbatim>\<open>\s\<close>.
\<close>

definition isWhiteSpace :: "char \<Rightarrow> bool" where
  "isWhiteSpace c =
     (c = CHR 0x09 \<or> c = CHR 0x0A \<or> c = CHR 0x0B \<or> c = CHR 0x0C \<or> c = CHR 0x0D
      \<or> c = CHR 0x20 \<or> c = CHR 0xA0)"

text \<open>\<^verbatim>\<open>s.trim()\<close>\<close>

definition trim :: "string \<Rightarrow> string" where
  "trim s = rev (dropWhile isWhiteSpace (rev (dropWhile isWhiteSpace s)))"

text \<open>
  \<^verbatim>\<open>s.split(/[\s\n\t]+/)\<close>: the pieces between the maximal runs of white space. A run
  at the start or at the end of \<open>s\<close> leaves an empty piece there, and the empty string
  splits into one empty piece, as in JavaScript.
\<close>

fun splitWhiteSpace :: "string \<Rightarrow> string list" where
  "splitWhiteSpace [] = [[]]"
| "splitWhiteSpace (c # cs) =
     (if isWhiteSpace c then
        (case cs of
           [] \<Rightarrow> [[], []]
         | d # _ \<Rightarrow> if isWhiteSpace d then splitWhiteSpace cs else [] # splitWhiteSpace cs)
      else
        (case splitWhiteSpace cs of
           [] \<Rightarrow> [[c]]
         | t # ts \<Rightarrow> (c # t) # ts))"

text \<open>\<^verbatim>\<open>s.startsWith(p)\<close>, \<^verbatim>\<open>s.endsWith(p)\<close>\<close>

definition startsWith :: "string \<Rightarrow> string \<Rightarrow> bool" where
  "startsWith s p = (take (length p) s = p)"

definition endsWith :: "string \<Rightarrow> string \<Rightarrow> bool" where
  "endsWith s p = (length p \<le> length s \<and> drop (length s - length p) s = p)"

section \<open>Messages\<close>

text \<open>
  A history entry is a JavaScript value. The three classes the program constructs are
  \<open>SystemMessage\<close>, \<open>HumanMessage\<close> and \<open>AIMessage\<close>; \<open>OtherMessage t c\<close> is an instance
  of any other subclass of \<open>BaseMessage\<close>, whose \<^verbatim>\<open>_getType()\<close> returns \<open>t\<close>;
  \<open>PlainObject t c\<close> is the object \<^verbatim>\<open>{type: t, content: c}\<close> that \<^verbatim>\<open>JSON.parse\<close> builds,
  which is an instance of no message class and has no method \<^verbatim>\<open>_getType\<close>.
\<close>

datatype message =
    SystemMessage string
  | HumanMessage string
  | AIMessage string
  | OtherMessage string string
  | PlainObject string string

fun content :: "message \<Rightarrow> string" where
  "content (SystemMessage c) = c"
| "content (HumanMessage c) = c"
| "content (AIMessage c) = c"
| "content (OtherMessage t c) = c"
| "content (PlainObject t c) = c"

text \<open>\<^verbatim>\<open>m instanceof BaseMessage\<close>: the values of the declared type \<^verbatim>\<open>BaseMessage[]\<close>.\<close>

fun isBaseMessage :: "message \<Rightarrow> bool" where
  "isBaseMessage (PlainObject t c) = False"
| "isBaseMessage m = True"

fun isSystemMessage :: "message \<Rightarrow> bool" where
  "isSystemMessage (SystemMessage c) = True"
| "isSystemMessage m = False"

fun isHumanMessage :: "message \<Rightarrow> bool" where
  "isHumanMessage (HumanMessage c) = True"
| "isHumanMessage m = False"

fun isAIMessage :: "message \<Rightarrow> bool" where
  "isAIMessage (AIMessage c) = True"
| "isAIMessage m = False"

text \<open>session.ts, \<^verbatim>\<open>getMessageType\<close>: the role of an entry, read from its class.\<close>

definition getMessageType :: "message \<Rightarrow> string" where
  "getMessageType m =
     (if isHumanMessage m then ''human''
      else if isAIMessage m then ''ai''
      else if isSystemMessage m then ''system''
      else ''unknown'')"

section \<open>Errors\<close>

datatype io_op =
    EnsureDir
  | WriteTextFile string
  | ReadTextFile string
  | ReadDir
  | Stat string
  | Remove string

datatype error =
    InvalidCommand string
  | TypeError
  | SyntaxError
  | NotFound string
  | IOError io_op
  | FileError string
  | UnknownModel string

section \<open>command.ts: the classifier\<close>

datatype Command =
    Help | Clear | ModelStack | Bye | File | Save | Load | Sessions | Delete | ResumeLatest

text \<open>The own properties of the object literal \<^verbatim>\<open>commandMap\<close>, in the order of the source.\<close>

definition commandMap :: "(string \<times> Command) list" where
  "commandMap =
     [(''/help'', Help),
      (''/?'', Help),
      (''/clear'', Clear),
      (''/modelStack'', ModelStack),
      (''/bye'', Bye),
      (''/exit'', Bye),
      (''/quit'', Bye),
      (''/file'', File),
      (''/save'', Save),
      (''/load'', Load),
      (''/sessions'', Sessions),
      (''/delete'', Delete),
      (''/resume-latest'', ResumeLatest)]"

text \<open>
  \<^verbatim>\<open>commandMap\<close> is an object literal, so its prototype is \<^verbatim>\<open>Object.prototype\<close> and the
  property read \<^verbatim>\<open>commandMap[input0]\<close> also finds the members inherited from there.
  All of them are functions, hence truthy. (Deno removes \<^verbatim>\<open>__proto__\<close> from
  \<^verbatim>\<open>Object.prototype\<close>, so it is not listed.)
\<close>

definition objectPrototypeMembers :: "string list" where
  "objectPrototypeMembers =
     [''constructor'', ''hasOwnProperty'', ''isPrototypeOf'', ''propertyIsEnumerable'',
      ''toLocaleString'', ''toString'', ''valueOf'',
      ''__defineGetter__'', ''__defineSetter__'', ''__lookupGetter__'', ''__lookupSetter__'']"

text \<open>
  What \<^verbatim>\<open>newSlashCommand\<close> returns: a command, a command with its path, or (outside its
  declared type) the member of \<^verbatim>\<open>Object.prototype\<close> that the property read found.
\<close>

datatype slash_command =
    Cmd Command
  | CmdPath Command string
  | PrototypeMember string

datatype property = Own Command | Inherited string | Undefined

definition getProperty :: "string \<Rightarrow> property" where
  "getProperty key =
     (case map_of commandMap key of
        Some c \<Rightarrow> Own c
      | None \<Rightarrow> if key \<in> set objectPrototypeMembers then Inherited key else Undefined)"

definition needsArgument :: "Command \<Rightarrow> bool" where
  "needsArgument c = (c \<in> set [File, Save, Load, Delete])"

definition newSlashCommand :: "string \<Rightarrow> error + slash_command" where
  "newSlashCommand input =
     (let inputParts = splitWhiteSpace (trim input);
          input0 = hd inputParts
      in case getProperty input0 of
           Undefined \<Rightarrow> Inl (InvalidCommand input0)
         | Inherited k \<Rightarrow> Inr (PrototypeMember k)
         | Own command \<Rightarrow>
             if needsArgument command \<and> length inputParts > 1
             then Inr (CmdPath command (inputParts ! 1))
             else Inr (Cmd command))"

section \<open>The environment of the session store\<close>

text \<open>
  What a session file holds. \<open>Json d\<close> is the JSON text of the record \<open>d\<close>, that is
  what \<^verbatim>\<open>JSON.stringify\<close> writes for it and what \<^verbatim>\<open>JSON.parse\<close> reads back as \<open>d\<close>;
  \<open>Text s\<close> is any text \<open>s\<close> that \<^verbatim>\<open>JSON.parse\<close> rejects (\<open>Text []\<close> is the empty
  file). Files holding JSON of another shape are not modelled.
\<close>

record stored_message =
  msg_type :: string
  msg_content :: string

record session_data =
  data_model :: string
  data_messages :: "stored_message list"
  data_timestamp :: string

datatype file_text = Json session_data | Text string

record fs_file =
  isFile :: bool
  mtime :: "int option"
  contents :: file_text

datatype notice =
    Attaching string
  | Attached string
  | ErrorProcessingFile string error
  | SuccessfullyAttached nat
  | NoFilesFound string
  | ErrorProcessingPattern string error
  | SessionSaved string
  | SessionLoaded string string
  | SessionDeleted string
  | ShowCommandMessage
  | ContextClearSuccessful
  | YouWereChatWith "string list"
  | SavedSessions "string list"
  | ResumedWithModel string
  | NoSessionToResume
  | AutoSaveFailed error
  | ResumedLatestSession string
  | NoSessionFilesFound
  | FailedToResume error

record code_block =
  cb_content :: string
  cb_toString :: string

text \<open>
  The state the program runs in.
  \<^item> \<open>sessionDir\<close>: the files below \<^verbatim>\<open>SESSION_DIR\<close>, each under its path relative to that
    directory, in the order \<^verbatim>\<open>Deno.readDir\<close> enumerates them; \<open>dirExists\<close> tells whether
    the directory is there.
  \<^item> \<open>faults\<close>: the calls of the Deno file API that reject for a reason of the platform
    (permissions, a full disk, a missing parent directory).
  \<^item> \<open>dates\<close>, \<open>tick\<close>: the clock; the \<open>n\<close>-th \<^verbatim>\<open>new Date().toISOString()\<close> of the run
    returns \<open>dates n\<close>. \<open>writeTime\<close> is the modification time a file written now gets.
  \<^item> \<open>params_model\<close>: \<^verbatim>\<open>CommandLineInterface.getInstance().params.model\<close>.
  \<^item> \<open>modelStack\<close>: the module's \<^verbatim>\<open>Set\<close>, in insertion order.
  \<^item> \<open>printed\<close>: what was printed, oldest first.
  \<^item> \<open>filesGenerator\<close>, \<open>parseFileContent\<close>: the functions of \<^verbatim>\<open>file.ts\<close>; the
    generator yields finitely many paths and may then fail.
\<close>

record world =
  sessionDir :: "(string \<times> fs_file) list"
  dirExists :: bool
  faults :: "io_op \<Rightarrow> bool"
  dates :: "nat \<Rightarrow> string"
  tick :: nat
  writeTime :: "int option"
  params_model :: string
  modelStack :: "string list"
  printed :: "notice list"
  filesGenerator :: "string \<Rightarrow> string list \<times> error option"
  parseFileContent :: "string \<Rightarrow> error + code_block"

definition print :: "notice \<Rightarrow> world \<Rightarrow> world" where
  "print n w = w\<lparr>printed := printed w @ [n]\<rparr>"

text \<open>\<^verbatim>\<open>new Date().toISOString()\<close>\<close>

definition newDate :: "world \<Rightarrow> string \<times> world" where
  "newDate w = (dates w (tick w), w\<lparr>tick := Suc (tick w)\<rparr>)"

text \<open>\<^verbatim>\<open>`${SESSION_DIR}/${name}.json`\<close>, relative to \<^verbatim>\<open>SESSION_DIR\<close>\<close>

definition sessionPath :: "string \<Rightarrow> string" where
  "sessionPath name = name @ ''.json''"

definition ensureDir :: "world \<Rightarrow> error + world" where
  "ensureDir w =
     (if faults w EnsureDir then Inl (IOError EnsureDir) else Inr (w\<lparr>dirExists := True\<rparr>))"

definition writeTextFile :: "string \<Rightarrow> file_text \<Rightarrow> world \<Rightarrow> error + world" where
  "writeTextFile path t w =
     (if faults w (WriteTextFile path) then Inl (IOError (WriteTextFile path))
      else if \<not> dirExists w then Inl (NotFound path)
      else case map_of (sessionDir w) path of
             None \<Rightarrow>
               Inr (w\<lparr>sessionDir := sessionDir w
                         @ [(path, \<lparr>isFile = True, mtime = writeTime w, contents = t\<rparr>)]\<rparr>)
           | Some f \<Rightarrow>
               if isFile f
               then Inr (w\<lparr>sessionDir :=
                            AList.update path (f\<lparr>mtime := writeTime w, contents := t\<rparr>)
                              (sessionDir w)\<rparr>)
               else Inl (IOError (WriteTextFile path)))"

definition readTextFile :: "string \<Rightarrow> world \<Rightarrow> error + file_text" where
  "readTextFile path w =
     (if faults w (ReadTextFile path) then Inl (IOError (ReadTextFile path))
      else if \<not> dirExists w then Inl (NotFound path)
      else case map_of (sessionDir w) path of
             None \<Rightarrow> Inl (NotFound path)
           | Some f \<Rightarrow> if isFile f then Inr (contents f) else Inl (IOError (ReadTextFile path)))"

text \<open>
  \<^verbatim>\<open>Deno.remove(path)\<close>, without \<^verbatim>\<open>recursive\<close>: a file or an empty directory is
  removed; a directory that still has an entry below it is not.
\<close>

definition remove :: "string \<Rightarrow> world \<Rightarrow> error + world" where
  "remove path w =
     (if faults w (Remove path) then Inl (IOError (Remove path))
      else if \<not> dirExists w then Inl (NotFound path)
      else case map_of (sessionDir w) path of
             None \<Rightarrow> Inl (NotFound path)
           | Some f \<Rightarrow>
               if \<not> isFile f
                  \<and> list_ex (\<lambda>entry. startsWith (fst entry) (path @ ''/'')) (sessionDir w)
               then Inl (IOError (Remove path))
               else Inr (w\<lparr>sessionDir := AList.delete path (sessionDir w)\<rparr>))"

text \<open>
  \<^verbatim>\<open>Deno.readDir(SESSION_DIR)\<close>: the direct children of the directory; a relative
  path with a slash lies in a subdirectory.
\<close>

definition readDir :: "world \<Rightarrow> error + (string \<times> fs_file) list" where
  "readDir w =
     (if faults w ReadDir then Inl (IOError ReadDir)
      else if \<not> dirExists w then Inl (NotFound [])
      else Inr (filter (\<lambda>(n, f). CHR ''/'' \<notin> set n) (sessionDir w)))"

text \<open>\<^verbatim>\<open>(await Deno.stat(path)).mtime\<close>\<close>

definition stat_mtime :: "string \<Rightarrow> world \<Rightarrow> error + int option" where
  "stat_mtime path w =
     (if faults w (Stat path) then Inl (IOError (Stat path))
      else if \<not> dirExists w then Inl (NotFound path)
      else case map_of (sessionDir w) path of
             None \<Rightarrow> Inl (NotFound path)
           | Some f \<Rightarrow> Inr (mtime f))"

section \<open>session.ts\<close>

text \<open>
  \<^verbatim>\<open>m._getType()\<close>. A plain object has no such method, and the call throws a
  \<^verbatim>\<open>TypeError\<close>.
\<close>

fun getType :: "message \<Rightarrow> error + string" where
  "getType (SystemMessage c) = Inr ''system''"
| "getType (HumanMessage c) = Inr ''human''"
| "getType (AIMessage c) = Inr ''ai''"
| "getType (OtherMessage t c) = Inr t"
| "getType (PlainObject t c) = Inl TypeError"

text \<open>\<^verbatim>\<open>messages.map(m => ({ type: m._getType(), content: m.content }))\<close>\<close>

fun storeMessages :: "message list \<Rightarrow> error + stored_message list" where
  "storeMessages [] = Inr []"
| "storeMessages (m # ms) =
     (case getType m of
        Inl e \<Rightarrow> Inl e
      | Inr t \<Rightarrow>
          (case storeMessages ms of
             Inl e \<Rightarrow> Inl e
           | Inr r \<Rightarrow> Inr (\<lparr>msg_type = t, msg_content = content m\<rparr> # r)))"

definition saveSession :: "string \<Rightarrow> message list \<Rightarrow> string \<Rightarrow> world \<Rightarrow> (error + unit) \<times> world" where
  "saveSession name messages model w =
     (case ensureDir w of
        Inl e \<Rightarrow> (Inl e, w)
      | Inr w1 \<Rightarrow>
          (case storeMessages messages of
             Inl e \<Rightarrow> (Inl e, w1)
           | Inr ms \<Rightarrow>
               (let (timestamp, w2) = newDate w1;
                    data = \<lparr>data_model = model, data_messages = ms, data_timestamp = timestamp\<rparr>
                in case writeTextFile (sessionPath name) (Json data) w2 of
                     Inl e \<Rightarrow> (Inl e, w2)
                   | Inr w3 \<Rightarrow> (Inr (), w3))))"

text \<open>\<^verbatim>\<open>JSON.parse(raw)\<close>\<close>

fun parseJSON :: "file_text \<Rightarrow> error + session_data" where
  "parseJSON (Json d) = Inr d"
| "parseJSON (Text s) = Inl SyntaxError"

text \<open>The \<^verbatim>\<open>switch (m.type)\<close> of \<^verbatim>\<open>loadSession\<close>, with its fallback.\<close>

definition restoreMessage :: "stored_message \<Rightarrow> message" where
  "restoreMessage m =
     (if msg_type m = ''system'' then SystemMessage (msg_content m)
      else if msg_type m = ''human'' then HumanMessage (msg_content m)
      else if msg_type m = ''ai'' then AIMessage (msg_content m)
      else HumanMessage (msg_content m))"

definition loadSession :: "string \<Rightarrow> world \<Rightarrow> error + (string \<times> message list)" where
  "loadSession name w =
     (case readTextFile (sessionPath name) w of
        Inl e \<Rightarrow> Inl e
      | Inr raw \<Rightarrow>
          (case parseJSON raw of
             Inl e \<Rightarrow> Inl e
           | Inr data \<Rightarrow> Inr (data_model data, map restoreMessage (data_messages data))))"

text \<open>\<^verbatim>\<open>s.replace(pat, rep)\<close> with a string pattern: the first occurrence only.\<close>

fun replaceFirst :: "string \<Rightarrow> string \<Rightarrow> string \<Rightarrow> string" where
  "replaceFirst pat rep [] = (if pat = [] then rep else [])"
| "replaceFirst pat rep (c # cs) =
     (if startsWith (c # cs) pat then rep @ drop (length pat) (c # cs)
      else c # replaceFirst pat rep cs)"

definition isSessionFile :: "string \<times> fs_file \<Rightarrow> bool" where
  "isSessionFile entry = (isFile (snd entry) \<and> endsWith (fst entry) ''.json'')"

definition listSessions :: "world \<Rightarrow> string list" where
  "listSessions w =
     (case readDir w of
        Inl e \<Rightarrow> []
      | Inr entries \<Rightarrow> map (\<lambda>entry. replaceFirst ''.json'' [] (fst entry)) (filter isSessionFile entries))"

definition deleteSession :: "string \<Rightarrow> world \<Rightarrow> (error + unit) \<times> world" where
  "deleteSession name w =
     (case remove (sessionPath name) w of
        Inl e \<Rightarrow> (Inl e, w)
      | Inr w1 \<Rightarrow> (Inr (), w1))"

text \<open>\<^verbatim>\<open>timestamp.replace(/[:.]/g, "-")\<close>\<close>

definition sanitize :: "string \<Rightarrow> string" where
  "sanitize s = map (\<lambda>c. if c = CHR '':'' \<or> c = CHR ''.'' then CHR ''-'' else c) s"

definition autoSave :: "message list \<Rightarrow> string \<Rightarrow> world \<Rightarrow> (error + unit) \<times> world" where
  "autoSave messages model w =
     (case ensureDir w of
        Inl e \<Rightarrow> (Inl e, w)
      | Inr w1 \<Rightarrow>
          (let (timestamp, w2) = newDate w1;
               name = ''autosave-'' @ sanitize timestamp;
               ms = map (\<lambda>m. \<lparr>msg_type = getMessageType m, msg_content = content m\<rparr>) messages;
               (timestamp2, w3) = newDate w2;
               data = \<lparr>data_model = model, data_messages = ms, data_timestamp = timestamp2\<rparr>
           in case writeTextFile (sessionPath name) (Json data) w3 of
                Inl e \<Rightarrow> (Inl e, w3)
              | Inr w4 \<Rightarrow> (Inr (), w4)))"

text \<open>
  The \<^verbatim>\<open>for await\<close> loop of \<^verbatim>\<open>resumeLatestSession\<close>, carrying \<^verbatim>\<open>latestFile\<close> and
  \<^verbatim>\<open>latestTime\<close>; a rejected \<^verbatim>\<open>Deno.stat\<close> leaves the loop.
\<close>

fun scanLatest :: "world \<Rightarrow> (string \<times> fs_file) list \<Rightarrow> string option \<Rightarrow> int \<Rightarrow> error + (string option \<times> int)" where
  "scanLatest w [] latestFile latestTime = Inr (latestFile, latestTime)"
| "scanLatest w (entry # rest) latestFile latestTime =
     (if isSessionFile entry then
        (case stat_mtime (fst entry) w of
           Inl e \<Rightarrow> Inl e
         | Inr None \<Rightarrow> scanLatest w rest latestFile latestTime
         | Inr (Some t) \<Rightarrow>
             if t > latestTime then scanLatest w rest (Some (fst entry)) t
             else scanLatest w rest latestFile latestTime)
      else scanLatest w rest latestFile latestTime)"

definition resumeLatestSession :: "world \<Rightarrow> file_text option \<times> world" where
  "resumeLatestSession w =
     (case readDir w of
        Inl e \<Rightarrow> (None, print (FailedToResume e) w)
      | Inr entries \<Rightarrow>
          (case scanLatest w entries None 0 of
             Inl e \<Rightarrow> (None, print (FailedToResume e) w)
           | Inr (latestFile, latestTime) \<Rightarrow>
               (case latestFile of
                  None \<Rightarrow> (None, print NoSessionFilesFound w)
                | Some path \<Rightarrow>
                    (case readTextFile path w of
                       Inl e \<Rightarrow> (None, print (FailedToResume e) w)
                     | Inr text \<Rightarrow> (Some text, print (ResumedLatestSession path) w)))))"

section \<open>command.ts: the dispatcher\<close>

text \<open>How a call of \<^verbatim>\<open>handleSlashCommand\<close> ends: its promise fulfils with a history, it
  rejects with an error, or \<^verbatim>\<open>Deno.exit\<close> ends the process.\<close>

datatype outcome = Returned "message list" | Threw error | Exited int

text \<open>The decimal text of a number, as a template literal prints it.\<close>

fun showNat :: "nat \<Rightarrow> string" where
  "showNat n =
     (if n < 10 then [''0123456789'' ! n]
      else showNat (n div 10) @ [''0123456789'' ! (n mod 10)])"

declare showNat.simps [simp del]

text \<open>\<^verbatim>\<open>modelStack.add(model)\<close>\<close>

definition addModel :: "string \<Rightarrow> world \<Rightarrow> world" where
  "addModel model w =
     (if model \<in> set (modelStack w) then w else w\<lparr>modelStack := modelStack w @ [model]\<rparr>)"

text \<open>The body of the \<^verbatim>\<open>for await\<close> loop of the \<^verbatim>\<open>/file\<close> command, over the paths the
  generator yields.\<close>

fun attachFiles :: "string list \<Rightarrow> nat \<Rightarrow> string \<Rightarrow> world \<Rightarrow> nat \<times> string \<times> world" where
  "attachFiles [] fileCount allContent w = (fileCount, allContent, w)"
| "attachFiles (filePath # rest) fileCount allContent w =
     (case parseFileContent w filePath of
        Inl e \<Rightarrow> attachFiles rest fileCount allContent (print (ErrorProcessingFile filePath e) w)
      | Inr codeBlock \<Rightarrow>
          if cb_content codeBlock \<noteq> []
          then attachFiles rest (Suc fileCount)
                 (allContent @ cb_toString codeBlock @ [CHR 0x0A, CHR 0x0A])
                 (print (Attached filePath) w)
          else attachFiles rest fileCount allContent w)"

text \<open>Lines 115 to 162: the \<^verbatim>\<open>/file\<close> command. \<^verbatim>\<open>messages.push\<close> extends the array it was
  given, which is also the array returned.\<close>

definition handleFile :: "string \<Rightarrow> message list \<Rightarrow> world \<Rightarrow> outcome \<times> world" where
  "handleFile path messages w =
     (let w1 = print (Attaching path) w;
          (paths, failure) = filesGenerator w1 path;
          (fileCount, allContent, w2) = attachFiles paths 0 [] w1
      in case failure of
           Some e \<Rightarrow> (Returned messages, print (ErrorProcessingPattern path e) w2)
         | None \<Rightarrow>
             if fileCount > 0
             then (Returned
                     (messages @
                      [HumanMessage
                         (''Here are the file(s) I'm attaching ('' @ showNat fileCount
                          @ '' file(s)):'' @ [CHR 0x0A] @ trim allContent)]),
                   print (SuccessfullyAttached fileCount) w2)
             else (Returned messages, print (NoFilesFound path) w2))"

text \<open>Lines 234 to 243: the automatic save after the \<^verbatim>\<open>switch\<close>, and the final
  \<^verbatim>\<open>return messages\<close>.\<close>

definition autoSaveAndReturn :: "message list \<Rightarrow> world \<Rightarrow> outcome \<times> world" where
  "autoSaveAndReturn messages w =
     (case autoSave messages (params_model w) w of
        (Inl e, w1) \<Rightarrow> (Returned messages, print (AutoSaveFailed e) w1)
      | (Inr u, w1) \<Rightarrow> (Returned messages, w1))"

text \<open>The plain objects that \<^verbatim>\<open>JSON.parse(content).messages\<close> holds.\<close>

definition parsedMessages :: "session_data \<Rightarrow> message list" where
  "parsedMessages d = map (\<lambda>m. PlainObject (msg_type m) (msg_content m)) (data_messages d)"

text \<open>Lines 189 to 243: the \<^verbatim>\<open>switch\<close> over a bare command. A tag without a
  \<^verbatim>\<open>case\<close> falls through to the automatic save.\<close>

fun handleStandard :: "Command \<Rightarrow> message list \<Rightarrow> world \<Rightarrow> outcome \<times> world" where
  "handleStandard Help messages w = autoSaveAndReturn messages (print ShowCommandMessage w)"
| "handleStandard Clear messages w =
     (Returned (filter isSystemMessage messages), print ContextClearSuccessful w)"
| "handleStandard ModelStack messages w =
     autoSaveAndReturn messages (print (YouWereChatWith (modelStack w)) w)"
| "handleStandard Sessions messages w =
     autoSaveAndReturn messages (print (SavedSessions (listSessions w)) w)"
| "handleStandard ResumeLatest messages w =
     (case resumeLatestSession w of
        (None, w1) \<Rightarrow> (Returned messages, print NoSessionToResume w1)
      | (Some text, w1) \<Rightarrow>
          if text = Text [] then (Returned messages, print NoSessionToResume w1)
          else
            (case parseJSON text of
               Inl e \<Rightarrow> (Threw e, w1)
             | Inr restored \<Rightarrow>
                 (Returned (parsedMessages restored),
                  (addModel (data_model restored) (print (ResumedWithModel (data_model restored)) w1))
                    \<lparr>params_model := data_model restored\<rparr>)))"
| "handleStandard Bye messages w = (Exited 0, w)"
| "handleStandard command messages w = autoSaveAndReturn messages w"

text \<open>Lines 106 to 244. A value that is no object, such as an inherited member returned by
  \<^verbatim>\<open>newSlashCommand\<close>, matches no \<^verbatim>\<open>case\<close>.\<close>

fun handleSlashCommand :: "slash_command \<Rightarrow> message list \<Rightarrow> world \<Rightarrow> outcome \<times> world" where
  "handleSlashCommand (CmdPath command path) messages w =
     (if command = File then handleFile path messages w
      else if command = Save then
        (case saveSession path messages (params_model w) w of
           (Inl e, w1) \<Rightarrow> (Threw e, w1)
         | (Inr u, w1) \<Rightarrow> (Returned messages, print (SessionSaved path) w1))
      else if command = Load then
        (case loadSession path w of
           Inl e \<Rightarrow> (Threw e, w)
         | Inr (model, loadedMessages) \<Rightarrow>
             (Returned loadedMessages,
              (addModel model (print (SessionLoaded path model) w))\<lparr>params_model := model\<rparr>))
      else if command = Delete then
        (case deleteSession path w of
           (Inl e, w1) \<Rightarrow> (Threw e, w1)
         | (Inr u, w1) \<Rightarrow> (Returned messages, print (SessionDeleted path) w1))
      else handleStandard command messages w)"
| "handleSlashCommand (Cmd command) messages w = handleStandard command messages w"
| "handleSlashCommand (PrototypeMember k) messages w = autoSaveAndReturn messages w"

section \<open>command.ts: at-mentions\<close>

record ModelMessage =
  model :: string
  message :: string

text \<open>\<^verbatim>\<open>input.match(/^@[^\s\n\t]+/)\<close>: the matched text, if any.\<close>

definition matchAtModel :: "string \<Rightarrow> string option" where
  "matchAtModel input =
     (case input of
        [] \<Rightarrow> None
      | c # rest \<Rightarrow>
          if c = CHR ''@'' \<and> takeWhile (\<lambda>d. \<not> isWhiteSpace d) rest \<noteq> []
          then Some (c # takeWhile (\<lambda>d. \<not> isWhiteSpace d) rest)
          else None)"

definition extractAtModel :: "string \<Rightarrow> ModelMessage" where
  "extractAtModel input =
     (case matchAtModel input of
        None \<Rightarrow> \<lparr>model = [], message = input\<rparr>
      | Some m \<Rightarrow> \<lparr>model = drop 1 m, message = trim (drop (length m) input)\<rparr>)"

definition isAtCommand :: "message \<Rightarrow> bool" where
  "isAtCommand humanMessage =
     (if \<not> isHumanMessage humanMessage then False
      else if content humanMessage = [] then False
      else startsWith (content humanMessage) ''@'')"

text \<open>\<^verbatim>\<open>getMessageFromHistory(messages, index)\<close>; \<open>None\<close> is \<^verbatim>\<open>null\<close> or
  \<^verbatim>\<open>undefined\<close>. An index outside the array reads \<^verbatim>\<open>undefined\<close>.\<close>

definition getMessageFromHistory :: "message list \<Rightarrow> int \<Rightarrow> string option" where
  "getMessageFromHistory messages index =
     (if int (length messages) > \<bar>index\<bar> then
        (let i = int (length messages) + index
         in if 0 \<le> i \<and> i < int (length messages) then Some (content (messages ! nat i))
            else None)
      else None)"

definition handleAtCommand :: "message \<Rightarrow> message list \<Rightarrow> string \<Rightarrow> ModelMessage" where
  "handleAtCommand humanMessage messages mdl =
     (if \<not> isAtCommand humanMessage then \<lparr>model = mdl, message = content humanMessage\<rparr>
      else
        (let extracted = extractAtModel (content humanMessage);
             newMessage =
               (if message extracted \<noteq> [] then message extracted
                else case getMessageFromHistory messages (- 2) of
                       Some s \<Rightarrow> if s \<noteq> [] then s else []
                     | None \<Rightarrow> [])
         in \<lparr>model = (if model extracted \<noteq> [] then model extracted else mdl),
             message = newMessage\<rparr>))"

section \<open>model.ts\<close>

text \<open>
  \<^verbatim>\<open>Params\<close> is declared in \<^verbatim>\<open>params.ts\<close>; these are the fields that \<^verbatim>\<open>model.ts\<close> reads.
\<close>

record Params =
  p_model :: string
  p_temperature :: real
  p_maxTokens :: int
  p_apiKey :: string
  p_apiVersion :: string
  p_endpoint :: string

text \<open>
  The client objects, each with the fields its constructor was given, in the order of
  the source:
  \<^item> \<open>ChatOpenAI modelName temperature maxTokens\<close>, where \<open>maxTokens\<close> is \<open>None\<close> when the
    field is not passed;
  \<^item> \<open>ChatAnthropic modelName temperature maxTokens\<close>;
  \<^item> \<open>ChatGoogleGenerativeAI model temperature maxOutputTokens\<close>;
  \<^item> \<open>ChatXAI model temperature maxTokens\<close>;
  \<^item> \<open>AzureChatOpenAI azureOpenAIApiKey azureOpenAIApiVersion azureOpenAIEndpoint
    deploymentName temperature maxTokens\<close>.
\<close>

datatype CloseModel =
    ChatOpenAI string real "int option"
  | ChatAnthropic string real int
  | ChatGoogleGenerativeAI string real int
  | ChatXAI string real int
  | AzureChatOpenAI string string string string real int

definition createOpenAIInstance :: "Params \<Rightarrow> CloseModel" where
  "createOpenAIInstance params =
     ChatOpenAI (p_model params) (p_temperature params) (Some (p_maxTokens params))"

definition createOpenAIOModelInstance :: "Params \<Rightarrow> CloseModel" where
  "createOpenAIOModelInstance params =
     ChatOpenAI (p_model params) (p_temperature params) None"

definition createAnthropicInstance :: "Params \<Rightarrow> CloseModel" where
  "createAnthropicInstance params =
     ChatAnthropic (p_model params) (p_temperature params) (p_maxTokens params)"

definition createGoogleGenerativeAIInstance :: "Params \<Rightarrow> CloseModel" where
  "createGoogleGenerativeAIInstance params =
     ChatGoogleGenerativeAI (p_model params) (p_temperature params) (p_maxTokens params)"

definition createXAIInstance :: "Params \<Rightarrow> CloseModel" where
  "createXAIInstance params =
     ChatXAI (p_model params) (p_temperature params) (p_maxTokens params)"

definition createAzureOpenAIInstance :: "Params \<Rightarrow> CloseModel" where
  "createAzureOpenAIInstance params =
     (let deploymentName =
            (if startsWith (p_model params) ''azure-''
             then drop (length ''azure-'') (p_model params)
             else p_model params)
      in AzureChatOpenAI (p_apiKey params) (p_apiVersion params) (p_endpoint params)
           deploymentName (p_temperature params) (p_maxTokens params))"

text \<open>
  The keys of \<^verbatim>\<open>modelMap\<close> are regular expressions anchored at the start, made of
  literal characters and one character range: a pattern is the list of its atoms.
\<close>

datatype atom = Chr char | Range char char

fun matchesAtom :: "atom \<Rightarrow> char \<Rightarrow> bool" where
  "matchesAtom (Chr d) c = (c = d)"
| "matchesAtom (Range lo hi) c =
     ((of_char lo :: nat) \<le> of_char c \<and> (of_char c :: nat) \<le> of_char hi)"

text \<open>\<^verbatim>\<open>new RegExp("^" + atoms).test(s)\<close>\<close>

fun matchesPattern :: "atom list \<Rightarrow> string \<Rightarrow> bool" where
  "matchesPattern [] s = True"
| "matchesPattern (a # as) [] = False"
| "matchesPattern (a # as) (c # cs) = (matchesAtom a c \<and> matchesPattern as cs)"

definition modelMap :: "(atom list \<times> (Params \<Rightarrow> CloseModel)) list" where
  "modelMap =
     [(map Chr ''gpt'', createOpenAIInstance),
      ([Chr CHR ''o'', Range CHR ''0'' CHR ''9''], createOpenAIOModelInstance),
      (map Chr ''claude'', createAnthropicInstance),
      (map Chr ''gem'', createGoogleGenerativeAIInstance),
      (map Chr ''grok'', createXAIInstance),
      (map Chr ''azure'', createAzureOpenAIInstance)]"

text \<open>
  Modelled from the spec: the function that resolves a model identifier against
  \<^verbatim>\<open>modelMap\<close> is not in \<^verbatim>\<open>model.ts\<close>. Section 4.3 of the specification: the rules are
  an ordered table of pairs of a regular expression and a strategy, tested against the
  identifier, the first matching strategy wins, and an identifier that matches no rule
  is a configuration error.
\<close>

definition selectStrategy :: "string \<Rightarrow> (Params \<Rightarrow> CloseModel) option" where
  "selectStrategy identifier =
     map_option snd (find (\<lambda>rule. matchesPattern (fst rule) identifier) modelMap)"

definition resolveModel :: "Params \<Rightarrow> error + CloseModel" where
  "resolveModel params =
     (case selectStrategy (p_model params) of
        None \<Rightarrow> Inl (UnknownModel (p_model params))
      | Some create \<Rightarrow> Inr (create params))"

section \<open>The wording of the specification\<close>

text \<open>
  Section 4.1 of the specification, on an at-mention without content: the text of the most
  recent user turn found by walking the history backward from the second-to-last entry,
  and empty content if no such turn exists.
\<close>

definition previousUserTurn :: "message list \<Rightarrow> string" where
  "previousUserTurn messages =
     (case filter isHumanMessage (rev (butlast messages)) of
        [] \<Rightarrow> []
      | m # ms \<Rightarrow> content m)"

text \<open>
  Role normalisation (section 8, the round trip): an entry keeps its content and becomes
  the \<open>SystemMessage\<close>, \<open>HumanMessage\<close> or \<open>AIMessage\<close> that its role tag names; every
  other tag becomes the default role, human. The entries of the three classes are
  their own normal form.
\<close>

fun normalizeRole :: "message \<Rightarrow> message" where
  "normalizeRole (SystemMessage c) = SystemMessage c"
| "normalizeRole (HumanMessage c) = HumanMessage c"
| "normalizeRole (AIMessage c) = AIMessage c"
| "normalizeRole (OtherMessage t c) =
     (if t = ''system'' then SystemMessage c else if t = ''ai'' then AIMessage c
      else HumanMessage c)"
| "normalizeRole (PlainObject t c) =
     (if t = ''system'' then SystemMessage c else if t = ''ai'' then AIMessage c
      else HumanMessage c)"

fun isKnownMessage :: "message \<Rightarrow> bool" where
  "isKnownMessage (OtherMessage t c) = False"
| "isKnownMessage (PlainObject t c) = False"
| "isKnownMessage m = True"

text \<open>The command tag of an input of the dispatcher.\<close>

fun commandOf :: "slash_command \<Rightarrow> Command option" where
  "commandOf (Cmd c) = Some c"
| "commandOf (CmdPath c p) = Some c"
| "commandOf (PrototypeMember k) = None"

text \<open>
  A state in which \<open>saveSession\<close> can write \<open>path\<close>: the directory can be ensured, the
  write is not rejected, and the path does not name a directory.
\<close>

definition writable :: "string \<Rightarrow> world \<Rightarrow> bool" where
  "writable path w =
     (\<not> faults w EnsureDir \<and> \<not> faults w (WriteTextFile path)
      \<and> (case map_of (sessionDir w) path of None \<Rightarrow> True | Some f \<Rightarrow> isFile f))"

section \<open>Concrete states\<close>

text \<open>An empty session directory in which every call succeeds.\<close>

definition quietWorld :: world where
  "quietWorld =
     \<lparr>sessionDir = [], dirExists = True, faults = (\<lambda>call. False),
      dates = (\<lambda>n. ''2024-01-01T00:00:00.000Z''), tick = 0, writeTime = Some 1704067200000,
      params_model = ''gpt-4'', modelStack = [''gpt-4''], printed = [],
      filesGenerator = (\<lambda>pattern. ([], None)),
      parseFileContent = (\<lambda>path. Inl (FileError path))\<rparr>"

text \<open>A stored session with a message of role \<open>tool\<close>.\<close>

definition toolSession :: session_data where
  "toolSession =
     \<lparr>data_model = ''gpt-4'',
      data_messages = [\<lparr>msg_type = ''human'', msg_content = ''run it''\<rparr>,
                       \<lparr>msg_type = ''tool'', msg_content = ''done''\<rparr>],
      data_timestamp = ''2024-01-01T00:00:00.000Z''\<rparr>"

definition storedWorld :: world where
  "storedWorld =
     quietWorld\<lparr>sessionDir :=
       [(''old.json'',
         \<lparr>isFile = True, mtime = Some 1704067200000, contents = Json toolSession\<rparr>)]\<rparr>"

text \<open>One session file, last modified at the epoch (\<^verbatim>\<open>touch -d @0\<close>).\<close>

definition epochWorld :: world where
  "epochWorld =
     quietWorld\<lparr>sessionDir :=
       [(''a.json'', \<lparr>isFile = True, mtime = Some 0, contents = Json toolSession\<rparr>)]\<rparr>"

lemmas io_defs = ensureDir_def newDate_def writeTextFile_def readTextFile_def readDir_def
  stat_mtime_def remove_def sessionPath_def print_def

section \<open>Properties of the classifier\<close>

text \<open>
  C6. Whenever the first white-space-delimited token of the input starts with \<open>/\<close> and is
  not a key of the command table, \<open>newSlashCommand\<close> throws the error
  \<^verbatim>\<open>Invalid command\<close> for that token: the result is an error, never a command and never
  content. The function receives the input only and has no effect, so the message
  history is as it was.
\<close>

theorem unknown_slash_token_is_rejected:
  assumes "startsWith (hd (splitWhiteSpace (trim input))) ''/''"
    and "hd (splitWhiteSpace (trim input)) \<notin> fst ` set commandMap"
  shows "newSlashCommand input = Inl (InvalidCommand (hd (splitWhiteSpace (trim input))))"
proof -
  let ?t = "hd (splitWhiteSpace (trim input))"
  from assms(2) have "map_of commandMap ?t = None"
    by (simp add: map_of_eq_None_iff)
  moreover from assms(1) have "?t \<notin> set objectPrototypeMembers"
    by (auto simp: startsWith_def objectPrototypeMembers_def)
  ultimately show ?thesis
    by (simp add: newSlashCommand_def getProperty_def Let_def)
qed

theorem unknown_slash_token_is_rejected_witness:
  "startsWith (hd (splitWhiteSpace (trim ''/bogus''))) ''/''
   \<and> hd (splitWhiteSpace (trim ''/bogus'')) \<notin> fst ` set commandMap
   \<and> newSlashCommand ''/bogus'' = Inl (InvalidCommand ''/bogus'')"
proof -
  have t: "hd (splitWhiteSpace (trim ''/bogus'')) = ''/bogus''"
    by (simp add: trim_def isWhiteSpace_def)
  have a: "startsWith (hd (splitWhiteSpace (trim ''/bogus''))) ''/''"
    by (simp add: t startsWith_def)
  have b: "hd (splitWhiteSpace (trim ''/bogus'')) \<notin> fst ` set commandMap"
    by (simp add: t commandMap_def)
  from unknown_slash_token_is_rejected [OF a b] a b show ?thesis
    by (simp add: t)
qed

text \<open>
  C9. The input \<open>constructor\<close> has a first token that is not in the command table, and
  \<open>newSlashCommand\<close> does not throw on it: the property read finds the member that the
  table inherits from \<^verbatim>\<open>Object.prototype\<close> and the function returns that value. An
  ordinary word such as \<open>hello\<close> is rejected.
\<close>

theorem inherited_member_is_not_rejected:
  "newSlashCommand ''constructor'' = Inr (PrototypeMember ''constructor'')
   \<and> ''constructor'' \<notin> fst ` set commandMap
   \<and> newSlashCommand ''hello'' = Inl (InvalidCommand ''hello'')"
  by (simp add: newSlashCommand_def trim_def isWhiteSpace_def getProperty_def commandMap_def
      objectPrototypeMembers_def)

section \<open>Properties of the dispatcher\<close>

lemma isSystemMessage_iff: "isSystemMessage m \<longleftrightarrow> (\<exists>c. m = SystemMessage c)"
  by (cases m) simp_all

lemma filter_system_class:
  "filter isSystemMessage messages = filter (\<lambda>m. \<exists>c. m = SystemMessage c) messages"
  by (rule filter_cong) (simp_all add: isSystemMessage_iff)

lemma system_class_tag:
  "\<forall>c. m \<noteq> OtherMessage ''system'' c \<Longrightarrow>
   (\<exists>c. m = SystemMessage c) \<longleftrightarrow> getType m = Inr ''system''"
  by (cases m) auto

text \<open>
  C5. The role of an entry is its variant (section 3 of the specification): the entries
  of role \<open>system\<close> are the instances of \<open>SystemMessage\<close>. \<open>Clear\<close> returns exactly
  those, in their order, and every other entry is dropped; applied to its own result,
  in any state, it returns that result again. Unless an instance of a foreign class
  carries the tag \<open>system\<close>, these are also the entries whose \<^verbatim>\<open>_getType()\<close> is
  \<open>system\<close>.
\<close>

theorem clear_keeps_system_entries:
  "fst (handleSlashCommand (Cmd Clear) messages w)
     = Returned (filter (\<lambda>m. \<exists>c. m = SystemMessage c) messages)
   \<and> fst (handleSlashCommand (Cmd Clear)
            (filter (\<lambda>m. \<exists>c. m = SystemMessage c) messages) w')
     = Returned (filter (\<lambda>m. \<exists>c. m = SystemMessage c) messages)
   \<and> (list_all (\<lambda>m. \<forall>c. m \<noteq> OtherMessage ''system'' c) messages \<longrightarrow>
        filter (\<lambda>m. \<exists>c. m = SystemMessage c) messages
          = filter (\<lambda>m. getType m = Inr ''system'') messages)"
proof (intro conjI impI)
  show "fst (handleSlashCommand (Cmd Clear) messages w)
          = Returned (filter (\<lambda>m. \<exists>c. m = SystemMessage c) messages)"
    by (simp add: filter_system_class)
  have "filter isSystemMessage (filter isSystemMessage messages) = filter isSystemMessage messages"
    by simp
  then show "fst (handleSlashCommand (Cmd Clear)
                 (filter (\<lambda>m. \<exists>c. m = SystemMessage c) messages) w')
          = Returned (filter (\<lambda>m. \<exists>c. m = SystemMessage c) messages)"
    by (simp add: filter_system_class [symmetric])
next
  assume "list_all (\<lambda>m. \<forall>c. m \<noteq> OtherMessage ''system'' c) messages"
  then show "filter (\<lambda>m. \<exists>c. m = SystemMessage c) messages
               = filter (\<lambda>m. getType m = Inr ''system'') messages"
    by (intro filter_cong refl system_class_tag) (simp add: list_all_iff)
qed

theorem clear_keeps_system_entries_witness:
  "list_all (\<lambda>m. \<forall>c. m \<noteq> OtherMessage ''system'' c)
     [SystemMessage ''be brief'', HumanMessage ''hi'', AIMessage ''hello'',
      OtherMessage ''tool'' ''done'', PlainObject ''system'' ''raw'', SystemMessage ''be kind'']
   \<and> fst (handleSlashCommand (Cmd Clear)
            [SystemMessage ''be brief'', HumanMessage ''hi'', AIMessage ''hello'',
             OtherMessage ''tool'' ''done'', PlainObject ''system'' ''raw'',
             SystemMessage ''be kind''] quietWorld)
       = Returned [SystemMessage ''be brief'', SystemMessage ''be kind'']
   \<and> filter (\<lambda>m. getType m = Inr ''system'')
        [SystemMessage ''be brief'', HumanMessage ''hi'', AIMessage ''hello'',
         OtherMessage ''tool'' ''done'', PlainObject ''system'' ''raw'', SystemMessage ''be kind'']
       = [SystemMessage ''be brief'', SystemMessage ''be kind'']"
proof -
  let ?H = "[SystemMessage ''be brief'', HumanMessage ''hi'', AIMessage ''hello'',
             OtherMessage ''tool'' ''done'', PlainObject ''system'' ''raw'',
             SystemMessage ''be kind'']"
  have a: "list_all (\<lambda>m. \<forall>c. m \<noteq> OtherMessage ''system'' c) ?H"
    by simp
  from clear_keeps_system_entries [of ?H quietWorld quietWorld] a
  show ?thesis by simp
qed

section \<open>Properties of the model table\<close>

text \<open>
  C4. The strategy is selected from the identifier alone, so a fixed identifier always
  gets the same one, whatever the other parameters are. \<open>gpt-4\<close> selects
  \<open>createOpenAIInstance\<close>, which forwards \<open>maxTokens\<close>; \<open>o1-preview\<close> selects
  \<open>createOpenAIOModelInstance\<close>, which does not; \<open>azure-mydeploy\<close> selects
  \<open>createAzureOpenAIInstance\<close>, with the deployment name \<open>mydeploy\<close>.
\<close>

theorem model_resolution:
  "selectStrategy ''gpt-4'' = Some createOpenAIInstance
   \<and> resolveModel (p\<lparr>p_model := ''gpt-4''\<rparr>)
       = Inr (ChatOpenAI ''gpt-4'' (p_temperature p) (Some (p_maxTokens p)))
   \<and> selectStrategy ''o1-preview'' = Some createOpenAIOModelInstance
   \<and> resolveModel (p\<lparr>p_model := ''o1-preview''\<rparr>)
       = Inr (ChatOpenAI ''o1-preview'' (p_temperature p) None)
   \<and> selectStrategy ''azure-mydeploy'' = Some createAzureOpenAIInstance
   \<and> resolveModel (p\<lparr>p_model := ''azure-mydeploy''\<rparr>)
       = Inr (AzureChatOpenAI (p_apiKey p) (p_apiVersion p) (p_endpoint p) ''mydeploy''
                (p_temperature p) (p_maxTokens p))"
  by (simp add: selectStrategy_def resolveModel_def modelMap_def createOpenAIInstance_def
      createOpenAIOModelInstance_def createAzureOpenAIInstance_def startsWith_def)

section \<open>Properties of at-mentions\<close>

text \<open>
  C2. The at-mention \<open>@claude-3\<close> has no content of its own. After a system prompt, a
  question and its answer, \<open>handleAtCommand\<close> substitutes the question, which is the most
  recent user turn. When a further user turn follows the answer, the second-to-last entry
  is the answer, and the function substitutes the answer instead of walking back to the
  question. When the history is only the question and its answer, the function
  substitutes empty content although the question is there.
\<close>

theorem at_mention_misses_previous_prompt:
  "isAtCommand (HumanMessage ''@claude-3'')
   \<and> message (extractAtModel ''@claude-3'') = []
   \<and> message (handleAtCommand (HumanMessage ''@claude-3'')
                [SystemMessage ''be brief'', HumanMessage ''earlier question'',
                 AIMessage ''answer'']
                ''gpt-4'') = ''earlier question''
   \<and> message (handleAtCommand (HumanMessage ''@claude-3'')
                [SystemMessage ''be brief'', HumanMessage ''earlier question'',
                 AIMessage ''answer'', HumanMessage ''see the file'']
                ''gpt-4'') = ''answer''
   \<and> previousUserTurn
         [SystemMessage ''be brief'', HumanMessage ''earlier question'',
          AIMessage ''answer'', HumanMessage ''see the file'']
       = ''earlier question''
   \<and> message (handleAtCommand (HumanMessage ''@claude-3'')
                [HumanMessage ''earlier question'', AIMessage ''answer'']
                ''gpt-4'') = []
   \<and> previousUserTurn [HumanMessage ''earlier question'', AIMessage ''answer'']
       = ''earlier question''"
  by (simp add: handleAtCommand_def isAtCommand_def startsWith_def extractAtModel_def
      matchAtModel_def isWhiteSpace_def trim_def getMessageFromHistory_def previousUserTurn_def)

section \<open>Which commands change the history, and which save it\<close>

lemma autoSaveAndReturn_history: "fst (autoSaveAndReturn messages w) = Returned messages"
  by (simp add: autoSaveAndReturn_def split: prod.split sum.split)

text \<open>
  C10. For \<open>Save\<close>, \<open>Delete\<close>, \<open>Help\<close>, \<open>ModelStack\<close> and \<open>Sessions\<close>, with or without a
  path, the call either returns the history it was given or rejects with the error of
  the session store, which only \<open>Save\<close> and \<open>Delete\<close> with a path can do; it returns
  whenever that store operation succeeds. A returned history that differs from the
  given one comes from \<open>File\<close>, \<open>Clear\<close>, \<open>Load\<close> or \<open>ResumeLatest\<close>.
\<close>

theorem history_frame:
  "(commandOf c \<in> Some ` {Save, Delete, Help, ModelStack, Sessions} \<longrightarrow>
      fst (handleSlashCommand c messages w) = Returned messages
      \<or> (\<exists>e p. fst (handleSlashCommand c messages w) = Threw e
            \<and> (c = CmdPath Save p \<or> c = CmdPath Delete p)))
   \<and> (\<forall>p. c = CmdPath Save p \<and> fst (saveSession p messages (params_model w) w) = Inr ()
         \<longrightarrow> fst (handleSlashCommand c messages w) = Returned messages)
   \<and> (\<forall>p. c = CmdPath Delete p \<and> fst (deleteSession p w) = Inr ()
         \<longrightarrow> fst (handleSlashCommand c messages w) = Returned messages)
   \<and> (\<forall>h. fst (handleSlashCommand c messages w) = Returned h \<and> h \<noteq> messages \<longrightarrow>
         commandOf c \<in> Some ` {File, Clear, Load, ResumeLatest})"
proof (cases c)
  case (Cmd k)
  then show ?thesis
    by (cases k) (auto simp: autoSaveAndReturn_history split: prod.splits sum.splits option.splits)
next
  case (CmdPath k p)
  then show ?thesis
    by (cases k) (auto simp: autoSaveAndReturn_history split: prod.splits sum.splits option.splits)
next
  case (PrototypeMember x)
  then show ?thesis by (simp add: autoSaveAndReturn_history)
qed

theorem history_frame_witness:
  "commandOf (CmdPath Save ''test'') \<in> Some ` {Save, Delete, Help, ModelStack, Sessions}
   \<and> fst (saveSession ''test'' [SystemMessage ''be brief'', HumanMessage ''hi'']
            (params_model quietWorld) quietWorld) = Inr ()
   \<and> fst (handleSlashCommand (CmdPath Save ''test'')
            [SystemMessage ''be brief'', HumanMessage ''hi''] quietWorld)
       = Returned [SystemMessage ''be brief'', HumanMessage ''hi'']
   \<and> fst (handleSlashCommand (Cmd Clear) [SystemMessage ''be brief'', HumanMessage ''hi'']
            quietWorld)
       = Returned [SystemMessage ''be brief'']
   \<and> commandOf (Cmd Clear) \<in> Some ` {File, Clear, Load, ResumeLatest}"
proof -
  have a: "fst (saveSession ''test'' [SystemMessage ''be brief'', HumanMessage ''hi'']
                 (params_model quietWorld) quietWorld) = Inr ()"
    by (simp add: saveSession_def quietWorld_def io_defs)
  have b: "fst (handleSlashCommand (Cmd Clear) [SystemMessage ''be brief'', HumanMessage ''hi'']
                 quietWorld) = Returned [SystemMessage ''be brief'']"
    by simp
  from history_frame [of "CmdPath Save ''test''"
      "[SystemMessage ''be brief'', HumanMessage ''hi'']" quietWorld]
    history_frame [of "Cmd Clear" "[SystemMessage ''be brief'', HumanMessage ''hi'']" quietWorld]
    a b
  show ?thesis by simp
qed

text \<open>
  C1. In a state where every call succeeds, \<open>Clear\<close> returns the filtered history and
  leaves the session directory and the clock as they were: the automatic save is not
  run. \<open>Help\<close>, from the same state, writes the automatic save.
\<close>

theorem clear_skips_autosave:
  "handleSlashCommand (Cmd Clear) [SystemMessage ''s'', HumanMessage ''h''] quietWorld
     = (Returned [SystemMessage ''s''], quietWorld\<lparr>printed := [ContextClearSuccessful]\<rparr>)
   \<and> map fst (sessionDir (snd (handleSlashCommand (Cmd Help)
                                  [SystemMessage ''s'', HumanMessage ''h''] quietWorld)))
     = [''autosave-2024-01-01T00-00-00-000Z.json'']"
  by (simp add: quietWorld_def io_defs autoSaveAndReturn_def autoSave_def sanitize_def)

text \<open>
  C8. The stored record has a message of role \<open>tool\<close>. \<open>Load\<close> restores it as a human
  message. \<open>ResumeLatest\<close> returns the parsed objects as they are, without a role of any
  class: a later \<open>Save\<close> of that history throws, and \<open>Clear\<close> drops such an object even
  when its tag is \<open>system\<close>.
\<close>

theorem resume_keeps_plain_objects:
  "fst (handleSlashCommand (Cmd ResumeLatest) [] storedWorld)
      = Returned [PlainObject ''human'' ''run it'', PlainObject ''tool'' ''done'']
   \<and> fst (handleSlashCommand (CmdPath Load ''old'') [] storedWorld)
      = Returned [HumanMessage ''run it'', HumanMessage ''done'']
   \<and> fst (handleSlashCommand (CmdPath Save ''again'')
             [PlainObject ''human'' ''run it'', PlainObject ''tool'' ''done'']
             (snd (handleSlashCommand (Cmd ResumeLatest) [] storedWorld)))
      = Threw TypeError
   \<and> fst (handleSlashCommand (Cmd Clear) [PlainObject ''system'' ''be brief''] storedWorld)
      = Returned []"
  by (simp add: storedWorld_def quietWorld_def toolSession_def io_defs resumeLatestSession_def
      isSessionFile_def endsWith_def parsedMessages_def loadSession_def restoreMessage_def
      saveSession_def addModel_def)

section \<open>Properties of the session store\<close>

lemma content_normalizeRole: "content (normalizeRole m) = content m"
  by (cases m) simp_all

lemma normalizeRole_known: "isKnownMessage m \<Longrightarrow> normalizeRole m = m"
  by (cases m) simp_all

lemma restore_stored:
  "getType m = Inr t \<Longrightarrow>
   restoreMessage \<lparr>msg_type = t, msg_content = content m\<rparr> = normalizeRole m"
  by (cases m) (auto simp: restoreMessage_def)

lemma storeMessages_restore:
  "storeMessages H = Inr ms \<Longrightarrow> map restoreMessage ms = map normalizeRole H"
proof (induction H arbitrary: ms)
  case Nil
  then show ?case by simp
next
  case (Cons m H)
  then show ?case
    by (auto split: sum.splits simp: restore_stored)
qed

lemma storeMessages_succeeds:
  "list_all isBaseMessage H \<Longrightarrow> \<exists>ms. storeMessages H = Inr ms"
proof (induction H)
  case Nil
  then show ?case by simp
next
  case (Cons m H)
  then obtain ms where "storeMessages H = Inr ms" by auto
  moreover from Cons.prems obtain t where "getType m = Inr t"
    by (cases m) auto
  ultimately show ?case by simp
qed

lemma read_after_write:
  assumes "writeTextFile path t w = Inr w'" and "\<not> faults w' (ReadTextFile path)"
  shows "readTextFile path w' = Inr t"
  using assms
  by (auto simp: writeTextFile_def readTextFile_def update_conv map_add_def
      split: if_splits option.splits)

lemma load_after_save:
  assumes "saveSession name H M w = (Inr (), w')"
    and "\<not> faults w' (ReadTextFile (sessionPath name))"
  shows "loadSession name w' = Inr (M, map normalizeRole H)"
proof -
  from assms(1) have
    "\<exists>ms ts w2. storeMessages H = Inr ms
       \<and> writeTextFile (sessionPath name)
           (Json \<lparr>data_model = M, data_messages = ms, data_timestamp = ts\<rparr>) w2 = Inr w'"
    by (auto simp: saveSession_def newDate_def Let_def split: sum.splits prod.splits)
  then obtain ms ts w2 where
    st: "storeMessages H = Inr ms" and
    wr: "writeTextFile (sessionPath name)
           (Json \<lparr>data_model = M, data_messages = ms, data_timestamp = ts\<rparr>) w2 = Inr w'"
    by blast
  from read_after_write [OF wr assms(2)] storeMessages_restore [OF st]
  show ?thesis
    by (simp add: loadSession_def)
qed

lemma save_succeeds:
  assumes "list_all isBaseMessage H" and "writable (sessionPath name) w"
  shows "\<exists>w'. saveSession name H M w = (Inr (), w') \<and> faults w' = faults w"
proof -
  from storeMessages_succeeds [OF assms(1)] obtain ms where "storeMessages H = Inr ms" ..
  with assms(2) show ?thesis
    by (auto simp: saveSession_def writable_def ensureDir_def newDate_def writeTextFile_def
        split: option.splits)
qed

text \<open>
  C3. A history saved under a name and loaded again from the state the save left comes
  back with the saved model and with every entry role-normalised: as many entries, in the
  same order, with the same contents, and unchanged when they are system, human or AI
  messages. The save succeeds for every history of \<open>BaseMessage\<close> instances, model and
  name whenever the file calls do.
\<close>

theorem save_load_round_trip:
  "(\<forall>w'. saveSession name H M w = (Inr (), w')
           \<and> \<not> faults w' (ReadTextFile (sessionPath name))
      \<longrightarrow> loadSession name w' = Inr (M, map normalizeRole H))
   \<and> (list_all isBaseMessage H \<and> writable (sessionPath name) w
       \<and> \<not> faults w (ReadTextFile (sessionPath name))
      \<longrightarrow> (\<exists>w'. saveSession name H M w = (Inr (), w')
                \<and> loadSession name w' = Inr (M, map normalizeRole H)))
   \<and> length (map normalizeRole H) = length H
   \<and> map content (map normalizeRole H) = map content H
   \<and> (list_all isKnownMessage H \<longrightarrow> map normalizeRole H = H)"
proof (intro conjI impI allI)
  fix w'
  assume "saveSession name H M w = (Inr (), w') \<and> \<not> faults w' (ReadTextFile (sessionPath name))"
  then show "loadSession name w' = Inr (M, map normalizeRole H)"
    by (auto intro: load_after_save)
next
  assume a: "list_all isBaseMessage H \<and> writable (sessionPath name) w
       \<and> \<not> faults w (ReadTextFile (sessionPath name))"
  with save_succeeds [of H name w M] obtain w1 where
    "saveSession name H M w = (Inr (), w1)" "faults w1 = faults w"
    by blast
  with a load_after_save [of name H M w w1]
  show "\<exists>w'. saveSession name H M w = (Inr (), w')
                \<and> loadSession name w' = Inr (M, map normalizeRole H)"
    by simp
next
  show "length (map normalizeRole H) = length H" by simp
  show "map content (map normalizeRole H) = map content H"
    by (simp add: content_normalizeRole)
next
  assume "list_all isKnownMessage H"
  then show "map normalizeRole H = H"
    by (induction H) (simp_all add: normalizeRole_known)
qed

theorem save_load_round_trip_witness:
  "list_all isBaseMessage [SystemMessage ''be brief'', HumanMessage ''hi'', OtherMessage ''tool'' ''done'']
   \<and> writable (sessionPath ''test'') quietWorld
   \<and> \<not> faults quietWorld (ReadTextFile (sessionPath ''test''))
   \<and> loadSession ''test''
        (snd (saveSession ''test''
                [SystemMessage ''be brief'', HumanMessage ''hi'', OtherMessage ''tool'' ''done'']
                ''gpt-4'' quietWorld))
      = Inr (''gpt-4'', [SystemMessage ''be brief'', HumanMessage ''hi'', HumanMessage ''done''])"
proof -
  let ?H = "[SystemMessage ''be brief'', HumanMessage ''hi'', OtherMessage ''tool'' ''done'']"
  have a: "list_all isBaseMessage ?H" by simp
  have b: "writable (sessionPath ''test'') quietWorld"
    by (simp add: writable_def quietWorld_def)
  have c: "\<not> faults quietWorld (ReadTextFile (sessionPath ''test''))"
    by (simp add: quietWorld_def)
  from save_load_round_trip [of "''test''" ?H "''gpt-4''" quietWorld] a b c
  have "\<exists>w'. saveSession ''test'' ?H ''gpt-4'' quietWorld = (Inr (), w')
          \<and> loadSession ''test'' w' = Inr (''gpt-4'', map normalizeRole ?H)"
    by blast
  then have "loadSession ''test'' (snd (saveSession ''test'' ?H ''gpt-4'' quietWorld))
               = Inr (''gpt-4'', map normalizeRole ?H)"
    by auto
  with a b c show ?thesis by simp
qed


section \<open>Properties of resuming\<close>

lemma scanLatest_no_session_files:
  "filter isSessionFile es = [] \<Longrightarrow> scanLatest w es lf lt = Inr (lf, lt)"
  by (induction es) (auto split: if_splits)

lemma resume_none_returns:
  "fst (resumeLatestSession w) = None \<Longrightarrow>
   fst (handleSlashCommand (Cmd ResumeLatest) messages w) = Returned messages"
  by (auto split: prod.splits option.splits)

lemma resume_no_session_files:
  assumes "filter isSessionFile (sessionDir w) = []"
  shows "fst (resumeLatestSession w) = None"
proof -
  from assms have "filter isSessionFile (filter (\<lambda>(n, f). CHR ''/'' \<notin> set n) (sessionDir w)) = []"
    by (auto simp: filter_empty_conv)
  from scanLatest_no_session_files [OF this, of w None 0] show ?thesis
    by (auto simp: resumeLatestSession_def readDir_def
        split: sum.splits option.splits prod.splits)
qed

text \<open>
  C7. The session directory holds one session file, \<open>a.json\<close>, last modified at the
  epoch. It is the \<^verbatim>\<open>.json\<close> file with the greatest modification time; \<open>Sessions\<close> lists
  it and \<open>Load\<close> reads it. \<open>ResumeLatest\<close> selects nothing and reports that no session
  was found. The same file with a modification time one millisecond later is selected.
\<close>

theorem resume_latest_misses_epoch_file:
  "filter isSessionFile (sessionDir epochWorld)
     = [(''a.json'', \<lparr>isFile = True, mtime = Some 0, contents = Json toolSession\<rparr>)]
   \<and> listSessions epochWorld = [''a'']
   \<and> fst (handleSlashCommand (CmdPath Load ''a'') [HumanMessage ''hi''] epochWorld)
       = Returned [HumanMessage ''run it'', HumanMessage ''done'']
   \<and> resumeLatestSession epochWorld = (None, print NoSessionFilesFound epochWorld)
   \<and> fst (handleSlashCommand (Cmd ResumeLatest) [HumanMessage ''hi''] epochWorld)
       = Returned [HumanMessage ''hi'']
   \<and> fst (resumeLatestSession
            (epochWorld\<lparr>sessionDir :=
               [(''a.json'', \<lparr>isFile = True, mtime = Some 1, contents = Json toolSession\<rparr>)]\<rparr>))
       = Some (Json toolSession)"
  by (simp add: epochWorld_def quietWorld_def toolSession_def io_defs resumeLatestSession_def
      listSessions_def isSessionFile_def endsWith_def startsWith_def loadSession_def
      restoreMessage_def addModel_def)

end
